theory Spec2Isabelle
  imports Complex_Main "HOL-Library.Sublist"
begin

section \<open>Solar fault analyzer backend (solarbackend.py)\<close>

text \<open>
  The embedding follows \<^verbatim>\<open>src/G4solarcell/backendsolar/solarbackend.py\<close>: the range
  check \<^verbatim>\<open>validate_sensor_inputs\<close> and the request handler \<^verbatim>\<open>predict\<close>.
  A Python \<^verbatim>\<open>str\<close> is modelled by its UTF-8 encoding, so the Thai fragments of the
  messages and labels appear as byte lists.
\<close>

subsection \<open>Python floats and their comparison\<close>

text \<open>
  A Python float is a finite value, one of the two infinities, or NaN. Finite values are
  carried as the real number they denote. The negative zero is not told apart from zero:
  it compares equal to it, so it lies inside each of the four ranges and is never printed.
\<close>

datatype pyfloat = Fin real | PInf | NInf | NaN

text \<open>Python's \<^verbatim>\<open>a <= b\<close> on floats: every comparison with NaN is false.\<close>

fun float_le :: "pyfloat \<Rightarrow> pyfloat \<Rightarrow> bool" where
  "float_le NaN b = False"
| "float_le a NaN = False"
| "float_le NInf b = True"
| "float_le a PInf = True"
| "float_le (Fin a) (Fin b) = (a \<le> b)"
| "float_le PInf b = False"
| "float_le a NInf = False"

text \<open>Lines 19 to 22: the physical bounds of the four sensors.\<close>

definition VOLT_MIN :: pyfloat where "VOLT_MIN = Fin (- 5)"
definition VOLT_MAX :: pyfloat where "VOLT_MAX = Fin 20"
definition TEMP_MIN :: pyfloat where "TEMP_MIN = Fin (- 50)"
definition TEMP_MAX :: pyfloat where "TEMP_MAX = Fin 60"
definition DUST_MIN :: pyfloat where "DUST_MIN = Fin 0"
definition DUST_MAX :: pyfloat where "DUST_MAX = Fin 1000"
definition LIGHT_MIN :: pyfloat where "LIGHT_MIN = Fin (- 10)"
definition LIGHT_MAX :: pyfloat where "LIGHT_MAX = Fin 20000"

subsection \<open>Formatting floats inside f-strings\<close>

definition digit_char :: "nat \<Rightarrow> char" where
  "digit_char d = ''0123456789'' ! (d mod 10)"

fun str_nat :: "nat \<Rightarrow> string" where
  "str_nat n = (if n < 10 then [digit_char n] else str_nat (n div 10) @ [digit_char (n mod 10)])"

declare str_nat.simps [simp del]

text \<open>Rounding to the nearest integer, a tie going to the even neighbour.\<close>

definition round_half_even :: "real \<Rightarrow> int" where
  "round_half_even y =
     (let f = \<lfloor>y\<rfloor>; d = y - of_int f
      in if d < 1 / 2 then f else if 1 / 2 < d then f + 1 else if even f then f else f + 1)"

text \<open>
  The format specification \<^verbatim>\<open>{x:.2f}\<close>: two digits after the point, correctly rounded
  from the exact value of the float, with \<^verbatim>\<open>nan\<close>, \<^verbatim>\<open>inf\<close> and \<^verbatim>\<open>-inf\<close> for the
  values that are not finite.
\<close>

definition format_2f :: "pyfloat \<Rightarrow> string" where
  "format_2f x =
     (case x of
        NaN \<Rightarrow> ''nan''
      | PInf \<Rightarrow> ''inf''
      | NInf \<Rightarrow> ''-inf''
      | Fin r \<Rightarrow>
          (let q = nat (round_half_even (\<bar>r\<bar> * 100))
           in (if r < 0 then ''-'' else '''') @ str_nat (q div 100) @ ''.''
                @ [digit_char (q div 10), digit_char q]))"

text \<open>
  The plain replacement field \<^verbatim>\<open>{VOLT_MIN}\<close> prints \<^verbatim>\<open>str\<close> of the float. The program
  applies it to its eight bound constants only, which are whole numbers of small
  magnitude: there \<^verbatim>\<open>str\<close> prints the integer part followed by \<^verbatim>\<open>.0\<close>.
\<close>

definition str_float :: "pyfloat \<Rightarrow> string" where
  "str_float x =
     (case x of
        NaN \<Rightarrow> ''nan''
      | PInf \<Rightarrow> ''inf''
      | NInf \<Rightarrow> ''-inf''
      | Fin r \<Rightarrow> (if r < 0 then ''-'' else '''') @ str_nat (nat \<lfloor>\<bar>r\<bar>\<rfloor>) @ ''.0'')"

subsection \<open>The texts of the validation messages\<close>

text \<open>The Thai phrase of lines 32 to 41 ("is outside the accepted range"), in UTF-8.\<close>

definition thai_out_of_range :: string where
  "thai_out_of_range =
    [CHR 0xE0, CHR 0xB8, CHR 0xAD, CHR 0xE0, CHR 0xB8, CHR 0xA2, CHR 0xE0, CHR 0xB8, CHR 0xB9, CHR 0xE0, CHR 0xB9,
     CHR 0x88, CHR 0xE0, CHR 0xB8, CHR 0x99, CHR 0xE0, CHR 0xB8, CHR 0xAD, CHR 0xE0, CHR 0xB8, CHR 0x81, CHR 0xE0,
     CHR 0xB8, CHR 0x82, CHR 0xE0, CHR 0xB8, CHR 0xAD, CHR 0xE0, CHR 0xB8, CHR 0x9A, CHR 0xE0, CHR 0xB9, CHR 0x80,
     CHR 0xE0, CHR 0xB8, CHR 0x82, CHR 0xE0, CHR 0xB8, CHR 0x95, CHR 0xE0, CHR 0xB8, CHR 0x97, CHR 0xE0, CHR 0xB8,
     CHR 0xB5, CHR 0xE0, CHR 0xB9, CHR 0x88, CHR 0xE0, CHR 0xB8, CHR 0xA3, CHR 0xE0, CHR 0xB8, CHR 0xB1, CHR 0xE0,
     CHR 0xB8, CHR 0x9A, CHR 0xE0, CHR 0xB9, CHR 0x84, CHR 0xE0, CHR 0xB8, CHR 0x94, CHR 0xE0, CHR 0xB9, CHR 0x89]"

text \<open>The Thai word between the two bounds ("to"), in UTF-8.\<close>

definition thai_to :: string where
  "thai_to = [CHR 0xE0, CHR 0xB8, CHR 0x96, CHR 0xE0, CHR 0xB8, CHR 0xB6, CHR 0xE0, CHR 0xB8, CHR 0x87]"

text \<open>The degree sign, and the unit of dust (micro sign, g/m, superscript three).\<close>

definition degree_C :: string where
  "degree_C = [CHR 0xC2, CHR 0xB0] @ ''C''"

definition ug_per_m3 :: string where
  "ug_per_m3 = '' '' @ [CHR 0xC2, CHR 0xB5] @ ''g/m'' @ [CHR 0xC2, CHR 0xB3]"

subsection \<open>validate_sensor_inputs (lines 25 to 43)\<close>

text \<open>
  The four checks in the order of the source; each chained comparison
  \<^verbatim>\<open>LO <= x <= HI\<close> is the conjunction of its two halves. The result is the message,
  or \<open>None\<close>.
\<close>

definition validate_sensor_inputs :: "pyfloat \<Rightarrow> pyfloat \<Rightarrow> pyfloat \<Rightarrow> pyfloat \<Rightarrow> string option" where
  "validate_sensor_inputs volt temp dust light =
     (if \<not> (float_le VOLT_MIN volt \<and> float_le volt VOLT_MAX) then
        Some (''Input Error: Voltage ('' @ format_2f volt @ '' V) '' @ thai_out_of_range
              @ '' ('' @ str_float VOLT_MIN @ '' V '' @ thai_to @ '' '' @ str_float VOLT_MAX @ '' V)'')
      else if \<not> (float_le TEMP_MIN temp \<and> float_le temp TEMP_MAX) then
        Some (''Input Error: Temperature ('' @ format_2f temp @ degree_C @ '') '' @ thai_out_of_range
              @ '' ('' @ str_float TEMP_MIN @ degree_C @ '' '' @ thai_to @ '' '' @ str_float TEMP_MAX
              @ degree_C @ '')'')
      else if \<not> (float_le DUST_MIN dust \<and> float_le dust DUST_MAX) then
        Some (''Input Error: Dust ('' @ format_2f dust @ ug_per_m3 @ '') '' @ thai_out_of_range
              @ '' ('' @ str_float DUST_MIN @ ug_per_m3 @ '' '' @ thai_to @ '' '' @ str_float DUST_MAX
              @ ug_per_m3 @ '')'')
      else if \<not> (float_le LIGHT_MIN light \<and> float_le light LIGHT_MAX) then
        Some (''Input Error: Irradiance ('' @ format_2f light @ '' lx) '' @ thai_out_of_range
              @ '' ('' @ str_float LIGHT_MIN @ '' lx '' @ thai_to @ '' '' @ str_float LIGHT_MAX @ '' lx)'')
      else None)"

subsection \<open>The bounds as the specification words them\<close>

text \<open>
  The specification names four fields with closed intervals: voltage in [-5, 20],
  temperature in [-50, 60], dust in [0, 1000], irradiance in [-10, 20000], checked in
  this order. The definitions below follow those words; the theorems compare them with
  the function of the source.
\<close>

datatype field = Voltage | Temperature | Dust | Irradiance

fun lower_bound :: "field \<Rightarrow> real" where
  "lower_bound Voltage = - 5"
| "lower_bound Temperature = - 50"
| "lower_bound Dust = 0"
| "lower_bound Irradiance = - 10"

fun upper_bound :: "field \<Rightarrow> real" where
  "upper_bound Voltage = 20"
| "upper_bound Temperature = 60"
| "upper_bound Dust = 1000"
| "upper_bound Irradiance = 20000"

text \<open>A value lies within the bound of a field when it is a number of the interval.\<close>

fun within_bound :: "field \<Rightarrow> pyfloat \<Rightarrow> bool" where
  "within_bound f (Fin r) = (lower_bound f \<le> r \<and> r \<le> upper_bound f)"
| "within_bound f PInf = False"
| "within_bound f NInf = False"
| "within_bound f NaN = False"

fun field_name :: "field \<Rightarrow> string" where
  "field_name Voltage = ''Voltage''"
| "field_name Temperature = ''Temperature''"
| "field_name Dust = ''Dust''"
| "field_name Irradiance = ''Irradiance''"

fun field_unit :: "field \<Rightarrow> string" where
  "field_unit Voltage = '' V''"
| "field_unit Temperature = degree_C"
| "field_unit Dust = ug_per_m3"
| "field_unit Irradiance = '' lx''"

text \<open>The two ends of each interval as decimal numerals with one digit after the point.\<close>

fun lower_text :: "field \<Rightarrow> string" where
  "lower_text Voltage = ''-5.0''"
| "lower_text Temperature = ''-50.0''"
| "lower_text Dust = ''0.0''"
| "lower_text Irradiance = ''-10.0''"

fun upper_text :: "field \<Rightarrow> string" where
  "upper_text Voltage = ''20.0''"
| "upper_text Temperature = ''60.0''"
| "upper_text Dust = ''1000.0''"
| "upper_text Irradiance = ''20000.0''"

text \<open>The text of a bound: the lower end, the unit, the word "to", the upper end, the unit.\<close>

definition bound_text :: "field \<Rightarrow> string" where
  "bound_text f =
     lower_text f @ field_unit f @ '' '' @ thai_to @ '' '' @ upper_text f @ field_unit f"

text \<open>The message of a violation: the field, its value with its unit, and the bound.\<close>

definition violation_message :: "field \<Rightarrow> pyfloat \<Rightarrow> string" where
  "violation_message f x =
     ''Input Error: '' @ field_name f @ '' ('' @ format_2f x @ field_unit f @ '') ''
       @ thai_out_of_range @ '' ('' @ bound_text f @ '')''"

text \<open>
  Reading a printed number back, to say which number a text names: an optional minus
  sign, decimal digits, a point, decimal digits; or one of \<^verbatim>\<open>nan\<close>, \<^verbatim>\<open>inf\<close>,
  \<^verbatim>\<open>-inf\<close>.
\<close>

definition is_digits :: "string \<Rightarrow> bool" where
  "is_digits s = (s \<noteq> [] \<and> list_all (\<lambda>c. c \<in> set ''0123456789'') s)"

definition digit_value :: "char \<Rightarrow> nat" where
  "digit_value c = of_char c - 48"

definition read_nat :: "string \<Rightarrow> nat" where
  "read_nat s = foldl (\<lambda>a c. 10 * a + digit_value c) 0 s"

definition read_decimal :: "string \<Rightarrow> pyfloat option" where
  "read_decimal s =
     (let neg = (s \<noteq> [] \<and> hd s = CHR ''-'');
          body = (if neg then tl s else s);
          ip = takeWhile (\<lambda>c. c \<noteq> CHR ''.'') body;
          fp = drop 1 (dropWhile (\<lambda>c. c \<noteq> CHR ''.'') body)
      in if is_digits ip \<and> is_digits fp then
           Some (Fin ((if neg then - 1 else 1)
                        * (real (read_nat ip) + real (read_nat fp) / 10 ^ length fp)))
         else if s = ''nan'' then Some NaN
         else if s = ''inf'' then Some PInf
         else if s = ''-inf'' then Some NInf
         else None)"

text \<open>A value rounded to two digits after the point, a tie going to the even neighbour.\<close>

fun two_decimals :: "pyfloat \<Rightarrow> pyfloat" where
  "two_decimals (Fin r) =
     Fin ((if r < 0 then - 1 else 1) * (of_int (round_half_even (\<bar>r\<bar> * 100)) / 100))"
| "two_decimals x = x"

text \<open>The first field, in the fixed order, whose value violates its bound.\<close>

definition first_violation ::
  "pyfloat \<Rightarrow> pyfloat \<Rightarrow> pyfloat \<Rightarrow> pyfloat \<Rightarrow> (field \<times> pyfloat) option" where
  "first_violation volt temp dust light =
     find (\<lambda>(f, x). \<not> within_bound f x)
       [(Voltage, volt), (Temperature, temp), (Dust, dust), (Irradiance, light)]"

section \<open>The request handler\<close>

subsection \<open>Exceptions\<close>

text \<open>
  An exception is its class and its text (\<^verbatim>\<open>str(e)\<close>). The classes are told apart as
  far as the two handlers of \<^verbatim>\<open>predict\<close> do: \<open>ValueError\<close> stands for that class and
  its subclasses, \<open>OtherException\<close> for any further subclass of \<^verbatim>\<open>Exception\<close> that
  the scaler or the classifier may raise, \<open>BadRequest\<close> for the HTTP errors that
  \<^verbatim>\<open>request.get_json()\<close> raises on a body that is not JSON. The texts of the
  interpreter's own exceptions are those of CPython 3.11.
\<close>

datatype exn_class =
  ValueError | TypeError | OverflowError | KeyError | IndexError | BadRequest | OtherException

datatype exn = Exn (exn_class: exn_class) (exn_text: string)

subsection \<open>Parsed JSON\<close>

text \<open>
  What \<^verbatim>\<open>request.get_json()\<close> returns: \<^verbatim>\<open>None\<close>, a bool, an int, a float, a str, a
  list, or a dict (an association list of its items, looked up with \<open>map_of\<close>).
\<close>

datatype json =
  JNull | JBool bool | JInt int | JFloat pyfloat | JStr string
| JArr "json list" | JObj "(string \<times> json) list"

fun type_name :: "json \<Rightarrow> string" where
  "type_name JNull = ''NoneType''"
| "type_name (JBool b) = ''bool''"
| "type_name (JInt n) = ''int''"
| "type_name (JFloat x) = ''float''"
| "type_name (JStr s) = ''str''"
| "type_name (JArr xs) = ''list''"
| "type_name (JObj kvs) = ''dict''"

definition quoted :: "string \<Rightarrow> string" where
  "quoted s = [CHR 0x27] @ s @ [CHR 0x27]"

subsection \<open>The builtin float()\<close>

fun bit_length :: "nat \<Rightarrow> nat" where
  "bit_length n = (if n = 0 then 0 else Suc (bit_length (n div 2)))"

declare bit_length.simps [simp del]

text \<open>
  \<^verbatim>\<open>float(n)\<close> for an int: the nearest float, that is \<open>n\<close> rounded to 53 significant
  bits with ties to even, and \<^verbatim>\<open>OverflowError\<close> when that is beyond the largest float.
\<close>

definition int_to_float :: "int \<Rightarrow> exn + pyfloat" where
  "int_to_float n =
     (let a = nat \<bar>n\<bar>;
          s = bit_length a - 53;
          q = a div 2 ^ s;
          r = a mod 2 ^ s;
          m = (if 2 * r < 2 ^ s \<or> (2 * r = 2 ^ s \<and> even q) then q else q + 1);
          v = m * 2 ^ s
      in if 2 ^ 1024 \<le> v then Inl (Exn OverflowError ''int too large to convert to float'')
         else Inr (Fin (if n < 0 then - real v else real v)))"

text \<open>
  \<^verbatim>\<open>float(x)\<close> on a parsed JSON value. Parsing a \<^verbatim>\<open>str\<close> is the interpreter's own
  routine: it is the parameter \<open>str_to_float\<close>, which gives the float, or \<open>None\<close>
  where the interpreter raises \<^verbatim>\<open>ValueError\<close>. Every other type is a \<^verbatim>\<open>TypeError\<close>.
\<close>

definition py_float :: "(string \<Rightarrow> pyfloat option) \<Rightarrow> json \<Rightarrow> exn + pyfloat" where
  "py_float str_to_float x =
     (case x of
        JFloat f \<Rightarrow> Inr f
      | JInt n \<Rightarrow> int_to_float n
      | JBool b \<Rightarrow> Inr (Fin (if b then 1 else 0))
      | JStr s \<Rightarrow>
          (case str_to_float s of
             Some f \<Rightarrow> Inr f
           | None \<Rightarrow> Inl (Exn ValueError (''could not convert string to float: '' @ quoted s)))
      | _ \<Rightarrow>
          Inl (Exn TypeError
                (''float() argument must be a string or a real number, not ''
                   @ quoted (type_name x))))"

subsection \<open>Membership and subscription on the parsed body\<close>

text \<open>
  \<^verbatim>\<open>k in data\<close>: key membership on a dict, element membership on a list, substring
  test on a str, \<^verbatim>\<open>TypeError\<close> on everything else.
\<close>

definition py_contains :: "json \<Rightarrow> string \<Rightarrow> exn + bool" where
  "py_contains data k =
     (case data of
        JObj kvs \<Rightarrow> Inr (k \<in> set (map fst kvs))
      | JArr xs \<Rightarrow> Inr (JStr k \<in> set xs)
      | JStr s \<Rightarrow> Inr (sublist k s)
      | _ \<Rightarrow>
          Inl (Exn TypeError
                (''argument of type '' @ quoted (type_name data) @ '' is not iterable'')))"

text \<open>\<^verbatim>\<open>all(k in data for k in keys)\<close>: stops at the first key that is absent.\<close>

fun all_in :: "json \<Rightarrow> string list \<Rightarrow> exn + bool" where
  "all_in data [] = Inr True"
| "all_in data (k # ks) =
     (case py_contains data k of
        Inl e \<Rightarrow> Inl e
      | Inr present \<Rightarrow> if present then all_in data ks else Inr False)"

text \<open>\<^verbatim>\<open>data[k]\<close> with a str key.\<close>

definition py_getitem :: "json \<Rightarrow> string \<Rightarrow> exn + json" where
  "py_getitem data k =
     (case data of
        JObj kvs \<Rightarrow>
          (case map_of kvs k of
             Some v \<Rightarrow> Inr v
           | None \<Rightarrow> Inl (Exn KeyError (quoted k)))
      | JArr xs \<Rightarrow> Inl (Exn TypeError ''list indices must be integers or slices, not str'')
      | JStr s \<Rightarrow> Inl (Exn TypeError (''string indices must be integers, not '' @ quoted ''str''))
      | _ \<Rightarrow> Inl (Exn TypeError (quoted (type_name data) @ '' object is not subscriptable'')))"

subsection \<open>LABEL_MAP (lines 76 to 87)\<close>

definition thai_normal :: string where
  "thai_normal =
    [CHR 0xE0, CHR 0xB8, CHR 0x9B, CHR 0xE0, CHR 0xB8, CHR 0x81, CHR 0xE0, CHR 0xB8, CHR 0x95, CHR 0xE0, CHR 0xB8,
     CHR 0xB4]"

definition thai_dust :: string where
  "thai_dust =
    [CHR 0xE0, CHR 0xB8, CHR 0x9D, CHR 0xE0, CHR 0xB8, CHR 0xB8, CHR 0xE0, CHR 0xB9, CHR 0x88, CHR 0xE0, CHR 0xB8,
     CHR 0x99]"

definition thai_high_temp :: string where
  "thai_high_temp =
    [CHR 0xE0, CHR 0xB8, CHR 0xAD, CHR 0xE0, CHR 0xB8, CHR 0xB8, CHR 0xE0, CHR 0xB8, CHR 0x93, CHR 0xE0, CHR 0xB8,
     CHR 0xAB, CHR 0xE0, CHR 0xB8, CHR 0xA0, CHR 0xE0, CHR 0xB8, CHR 0xB9, CHR 0xE0, CHR 0xB8, CHR 0xA1, CHR 0xE0,
     CHR 0xB8, CHR 0xB4, CHR 0xE0, CHR 0xB8, CHR 0xAA, CHR 0xE0, CHR 0xB8, CHR 0xB9, CHR 0xE0, CHR 0xB8, CHR 0x87]"

definition thai_shading :: string where
  "thai_shading =
    [CHR 0xE0, CHR 0xB9, CHR 0x80, CHR 0xE0, CHR 0xB8, CHR 0x87, CHR 0xE0, CHR 0xB8, CHR 0xB2, CHR 0xE0, CHR 0xB8,
     CHR 0x9A, CHR 0xE0, CHR 0xB8, CHR 0xB1, CHR 0xE0, CHR 0xB8, CHR 0x87]"

definition thai_abnormal :: string where
  "thai_abnormal =
    [CHR 0xE0, CHR 0xB8, CHR 0x84, CHR 0xE0, CHR 0xB9, CHR 0x88, CHR 0xE0, CHR 0xB8, CHR 0xB2, CHR 0xE0, CHR 0xB8,
     CHR 0x9C, CHR 0xE0, CHR 0xB8, CHR 0xB4, CHR 0xE0, CHR 0xB8, CHR 0x94, CHR 0xE0, CHR 0xB8, CHR 0x9B, CHR 0xE0,
     CHR 0xB8, CHR 0x81, CHR 0xE0, CHR 0xB8, CHR 0x95, CHR 0xE0, CHR 0xB8, CHR 0xB4, CHR 0xE0, CHR 0xB9, CHR 0x80,
     CHR 0xE0, CHR 0xB8, CHR 0x81, CHR 0xE0, CHR 0xB8, CHR 0xB4, CHR 0xE0, CHR 0xB8, CHR 0x99, CHR 0xE0, CHR 0xB8,
     CHR 0x82, CHR 0xE0, CHR 0xB8, CHR 0xAD, CHR 0xE0, CHR 0xB8, CHR 0x9A, CHR 0xE0, CHR 0xB9, CHR 0x80, CHR 0xE0,
     CHR 0xB8, CHR 0x82, CHR 0xE0, CHR 0xB8, CHR 0x95]"

definition thai_hot :: string where
  "thai_hot =
    [CHR 0xE0, CHR 0xB8, CHR 0xA3, CHR 0xE0, CHR 0xB9, CHR 0x89, CHR 0xE0, CHR 0xB8, CHR 0xAD, CHR 0xE0, CHR 0xB8,
     CHR 0x99]"

definition thai_shade :: string where
  "thai_shade = [CHR 0xE0, CHR 0xB9, CHR 0x80, CHR 0xE0, CHR 0xB8, CHR 0x87, CHR 0xE0, CHR 0xB8, CHR 0xB2]"

definition thai_low_temp :: string where
  "thai_low_temp =
    [CHR 0xE0, CHR 0xB8, CHR 0xAD, CHR 0xE0, CHR 0xB8, CHR 0xB8, CHR 0xE0, CHR 0xB8, CHR 0x93, CHR 0xE0, CHR 0xB8,
     CHR 0xAB, CHR 0xE0, CHR 0xB8, CHR 0xA0, CHR 0xE0, CHR 0xB8, CHR 0xB9, CHR 0xE0, CHR 0xB8, CHR 0xA1, CHR 0xE0,
     CHR 0xB8, CHR 0xB4, CHR 0xE0, CHR 0xB8, CHR 0x95, CHR 0xE0, CHR 0xB9, CHR 0x88, CHR 0xE0, CHR 0xB8, CHR 0xB3]"

definition LABEL_MAP :: "nat \<rightharpoonup> string" where
  "LABEL_MAP = map_of
     [(0, thai_normal @ '' (Normal)''),
      (1, thai_dust @ '' (Soiling)''),
      (2, thai_high_temp @ '' (High Temp)''),
      (3, thai_shading @ '' (Shading)''),
      (4, ''Sensor Error / '' @ thai_abnormal),
      (5, thai_hot @ ''+'' @ thai_shade @ '' (Temp + Shade)''),
      (6, thai_dust @ ''+'' @ thai_hot @ '' (Dust + Temp)''),
      (7, thai_dust @ ''+'' @ thai_shade @ '' (Dust + Shade)''),
      (8, thai_dust @ ''+'' @ thai_hot @ ''+'' @ thai_shade @ '' (Worst Case)''),
      (9, thai_low_temp @ '' (Low Temp)'')]"

subsection \<open>Responses, module globals and requests\<close>

text \<open>
  A response is what the handler returns: a body, which is a plain string or the JSON
  document \<^verbatim>\<open>jsonify\<close> builds from a dict, and a status code.
\<close>

datatype body = Text string | Json json

type_synonym response = "body \<times> nat"

text \<open>
  \<^verbatim>\<open>scaler.transform\<close> and \<^verbatim>\<open>model.predict\<close> belong to the loaded artifacts: each
  maps a two-dimensional array to one, or raises.
\<close>

type_synonym matrix = "pyfloat list list"

type_synonym transform = "matrix \<Rightarrow> exn + matrix"

text \<open>
  The module globals the handler reads, \<^verbatim>\<open>model\<close> and \<^verbatim>\<open>scaler\<close> (\<open>None\<close> after a
  failed load), and the standard error stream it prints to.
\<close>

record globals =
  model :: "transform option"
  scaler :: "transform option"
  stderr :: "string list"

datatype http_method = POST | OPTIONS

text \<open>
  The request: its method (the route admits these two) and the outcome of
  \<^verbatim>\<open>request.get_json()\<close>, which raises on a body that is not JSON.
\<close>

record request =
  req_method :: http_method
  get_json :: "exn + json"

subsection \<open>predict (lines 94 to 159)\<close>

definition required_keys :: "string list" where
  "required_keys = [''voltage'', ''temperature'', ''dust'', ''irradiance'']"

text \<open>\<^verbatim>\<open>str\<close> of a list of plain strings, as the f-string of line 109 prints it.\<close>

fun join_comma :: "string list \<Rightarrow> string" where
  "join_comma [] = []"
| "join_comma [x] = x"
| "join_comma (x # y # ys) = x @ '', '' @ join_comma (y # ys)"

definition str_list :: "string list \<Rightarrow> string" where
  "str_list xs = ''['' @ join_comma (map quoted xs) @ '']''"

text \<open>Line 131: the array handed to the scaler, one row of four features.\<close>

definition input_array :: "pyfloat \<Rightarrow> pyfloat \<Rightarrow> pyfloat \<Rightarrow> pyfloat \<Rightarrow> matrix" where
  "input_array voltage temperature dust irradiance = [[voltage, dust, temperature, irradiance]]"

text \<open>Indexing the classifier's output with \<^verbatim>\<open>[0]\<close>.\<close>

definition first_row :: "matrix \<Rightarrow> exn + pyfloat list" where
  "first_row m =
     (case m of
        [] \<Rightarrow> Inl (Exn IndexError ''index 0 is out of bounds for axis 0 with size 0'')
      | r # rs \<Rightarrow> Inr r)"

text \<open>
  \<^verbatim>\<open>np.argmax\<close> on a vector of floats: the first index of the maximum, where a NaN
  counts as the maximum and ends the scan; \<^verbatim>\<open>ValueError\<close> on an empty vector.
\<close>

fun argmax_from :: "pyfloat \<Rightarrow> nat \<Rightarrow> nat \<Rightarrow> pyfloat list \<Rightarrow> nat" where
  "argmax_from mp idx i [] = idx"
| "argmax_from mp idx i (x # xs) =
     (if mp = NaN then idx
      else if \<not> float_le x mp then argmax_from x i (Suc i) xs
      else argmax_from mp idx (Suc i) xs)"

definition np_argmax :: "pyfloat list \<Rightarrow> exn + nat" where
  "np_argmax xs =
     (case xs of
        [] \<Rightarrow> Inl (Exn ValueError ''attempt to get argmax of an empty sequence'')
      | x # rest \<Rightarrow> Inr (argmax_from x 0 1 rest))"

text \<open>
  Lines 144 to 147: the dict from \<^verbatim>\<open>LABEL_MAP[i]\<close> to the probability, over
  \<^verbatim>\<open>enumerate(prediction_array)\<close>; an index without a label is a \<^verbatim>\<open>KeyError\<close>.
\<close>

fun probabilities_from :: "nat \<Rightarrow> pyfloat list \<Rightarrow> exn + (string \<times> json) list" where
  "probabilities_from i [] = Inr []"
| "probabilities_from i (prob # rest) =
     (case LABEL_MAP i of
        None \<Rightarrow> Inl (Exn KeyError (str_nat i))
      | Some label \<Rightarrow>
          (case probabilities_from (i + 1) rest of
             Inl e \<Rightarrow> Inl e
           | Inr items \<Rightarrow> Inr ((label, JFloat prob) # items)))"

text \<open>
  Lines 137 to 153: the first row of the classifier's output, the index of its maximum,
  the label of that index, the probabilities by label, and the response.
\<close>

definition build_response :: "matrix \<Rightarrow> exn + response" where
  "build_response predictions =
     (case first_row predictions of
        Inl e \<Rightarrow> Inl e
      | Inr prediction_array \<Rightarrow>
     (case np_argmax prediction_array of
        Inl e \<Rightarrow> Inl e
      | Inr predicted_class_index \<Rightarrow>
     (let predicted_label =
            (case LABEL_MAP predicted_class_index of
               Some label \<Rightarrow> label
             | None \<Rightarrow> ''Unknown Class'')
      in case probabilities_from 0 prediction_array of
           Inl e \<Rightarrow> Inl e
         | Inr probabilities \<Rightarrow>
             Inr (Json (JObj [(''result'', JStr predicted_label),
                              (''probabilities'', JObj probabilities)]), 200))))"

text \<open>
  Lines 134 to 153: the scaler is applied to the input array, the classifier to what the
  scaler returns, and the response is built from what the classifier returns.
\<close>

definition classify :: "transform \<Rightarrow> transform \<Rightarrow> matrix \<Rightarrow> exn + response" where
  "classify scaler_transform model_predict input =
     (case scaler_transform input of
        Inl e \<Rightarrow> Inl e
      | Inr scaled_input \<Rightarrow>
     (case model_predict scaled_input of
        Inl e \<Rightarrow> Inl e
      | Inr predictions \<Rightarrow> build_response predictions))"

text \<open>
  Lines 113 to 153, the body of the \<^verbatim>\<open>try\<close>: the four conversions in the order of
  the source, the range check, and then either the fault response or the classifier.
  \<^verbatim>\<open>if validation_error\<close> tests the truth value of the result: \<^verbatim>\<open>None\<close> and the empty
  string are false.
\<close>

definition predict_try ::
  "(string \<Rightarrow> pyfloat option) \<Rightarrow> transform \<Rightarrow> transform \<Rightarrow> json \<Rightarrow> exn + response" where
  "predict_try str_to_float model_predict scaler_transform data =
     (case py_getitem data ''voltage'' of Inl e \<Rightarrow> Inl e | Inr x1 \<Rightarrow>
     (case py_float str_to_float x1 of Inl e \<Rightarrow> Inl e | Inr voltage \<Rightarrow>
     (case py_getitem data ''temperature'' of Inl e \<Rightarrow> Inl e | Inr x2 \<Rightarrow>
     (case py_float str_to_float x2 of Inl e \<Rightarrow> Inl e | Inr temperature \<Rightarrow>
     (case py_getitem data ''dust'' of Inl e \<Rightarrow> Inl e | Inr x3 \<Rightarrow>
     (case py_float str_to_float x3 of Inl e \<Rightarrow> Inl e | Inr dust \<Rightarrow>
     (case py_getitem data ''irradiance'' of Inl e \<Rightarrow> Inl e | Inr x4 \<Rightarrow>
     (case py_float str_to_float x4 of Inl e \<Rightarrow> Inl e | Inr irradiance \<Rightarrow>
     (let validation_error = validate_sensor_inputs voltage temperature dust irradiance
      in if validation_error \<noteq> None \<and> validation_error \<noteq> Some [] then
           (case LABEL_MAP 4 of
              None \<Rightarrow> Inl (Exn KeyError ''4'')
            | Some label \<Rightarrow>
                Inr (Json (JObj [(''result'', JStr label),
                                 (''error'', JStr (the validation_error))]), 400))
         else
           classify scaler_transform model_predict
             (input_array voltage temperature dust irradiance))))))))))"

text \<open>
  The handler. The exceptions of \<^verbatim>\<open>get_json\<close> and of the key test leave the handler
  (they are raised before the \<^verbatim>\<open>try\<close>); those of the \<^verbatim>\<open>try\<close> body are answered by
  the two \<^verbatim>\<open>except\<close> clauses, the second of which prints to the standard error stream.
\<close>

definition predict ::
  "(string \<Rightarrow> pyfloat option) \<Rightarrow> globals \<Rightarrow> request \<Rightarrow> (exn + response) \<times> globals" where
  "predict str_to_float g req =
     (if model g = None \<or> scaler g = None then
        (Inr (Json (JObj [(''error'', JStr ''Model or Scaler not loaded. Service unavailable.'')]),
              503), g)
      else if req_method req = OPTIONS then (Inr (Text [], 204), g)
      else
        (case get_json req of
           Inl e \<Rightarrow> (Inl e, g)
         | Inr data \<Rightarrow>
        (case all_in data required_keys of
           Inl e \<Rightarrow> (Inl e, g)
         | Inr present \<Rightarrow>
             if \<not> present then
               (Inr (Json (JObj [(''error'',
                        JStr (''Missing one or more required keys: '' @ str_list required_keys))]),
                     400), g)
             else
               (case predict_try str_to_float (the (model g)) (the (scaler g)) data of
                  Inr resp \<Rightarrow> (Inr resp, g)
                | Inl e \<Rightarrow>
                    if exn_class e = ValueError then
                      (Inr (Json (JObj [(''error'',
                               JStr ''Invalid data format. All inputs must be numerical.'')]),
                            400), g)
                    else
                      (Inr (Json (JObj [(''error'',
                               JStr (''Internal server error during prediction: '' @ exn_text e))]),
                            500),
                       g\<lparr>stderr := stderr g
                            @ [''Prediction Error (Internal Server): '' @ exn_text e]\<rparr>)))))"

subsection \<open>A concrete service on which the theorems are evaluated\<close>

text \<open>
  The fragment of the interpreter's string parsing that the evaluations use: the three
  special spellings. The only other string it is applied to is \<^verbatim>\<open>abc\<close>, which the
  interpreter rejects as well.
\<close>

definition sample_str_to_float :: "string \<Rightarrow> pyfloat option" where
  "sample_str_to_float s =
     (if s = ''nan'' then Some NaN
      else if s = ''inf'' then Some PInf
      else if s = ''-inf'' then Some NInf
      else None)"

text \<open>
  A min-max scaler over the columns voltage, dust, temperature, irradiance, and a
  classifier that answers class 1 when the scaled second column is at least one half and
  class 0 otherwise.
\<close>

fun scale_column :: "real \<times> real \<Rightarrow> pyfloat \<Rightarrow> pyfloat" where
  "scale_column (lo, hi) (Fin x) = Fin ((x - lo) / (hi - lo))"
| "scale_column (lo, hi) x = x"

definition sample_scaler :: transform where
  "sample_scaler m =
     Inr (map (\<lambda>row. map2 scale_column [(- 5, 20), (0, 1000), (- 50, 60), (- 10, 20000)] row) m)"

definition one_hot :: "nat \<Rightarrow> pyfloat list" where
  "one_hot c = map (\<lambda>i. Fin (if i = c then 1 else 0)) [0, 1, 2, 3, 4, 5, 6, 7, 8, 9]"

definition sample_model :: transform where
  "sample_model m =
     Inr (map (\<lambda>row. case row of
                        [v, d, t, l] \<Rightarrow> one_hot (if float_le (Fin (1 / 2)) d then 1 else 0)
                      | _ \<Rightarrow> one_hot 4) m)"

definition loaded_globals :: globals where
  "loaded_globals = \<lparr>model = Some sample_model, scaler = Some sample_scaler, stderr = []\<rparr>"

definition degraded_globals :: globals where
  "degraded_globals = \<lparr>model = None, scaler = Some sample_scaler, stderr = []\<rparr>"

definition reading :: "json \<Rightarrow> json \<Rightarrow> json \<Rightarrow> json \<Rightarrow> (string \<times> json) list" where
  "reading v t d l = [(''voltage'', v), (''temperature'', t), (''dust'', d), (''irradiance'', l)]"

definition post :: "json \<Rightarrow> request" where
  "post data = \<lparr>req_method = POST, get_json = Inr data\<rparr>"

section \<open>Properties of the range check\<close>

lemma float_le_lower: "float_le (Fin lo) x = (case x of Fin r \<Rightarrow> lo \<le> r | PInf \<Rightarrow> True | _ \<Rightarrow> False)"
  by (cases x) simp_all

lemma in_range_within:
  "(float_le (Fin (lower_bound f)) x \<and> float_le x (Fin (upper_bound f))) = within_bound f x"
  by (cases x) simp_all

lemma str_nat_small: "n < 10 \<Longrightarrow> str_nat n = [digit_char n]"
  by (subst str_nat.simps) simp

lemma str_nat_big: "\<not> n < 10 \<Longrightarrow> str_nat n = str_nat (n div 10) @ [digit_char (n mod 10)]"
  by (subst str_nat.simps) simp

lemma str_float_bounds:
  "str_float VOLT_MIN = ''-5.0''" "str_float VOLT_MAX = ''20.0''"
  "str_float TEMP_MIN = ''-50.0''" "str_float TEMP_MAX = ''60.0''"
  "str_float DUST_MIN = ''0.0''" "str_float DUST_MAX = ''1000.0''"
  "str_float LIGHT_MIN = ''-10.0''" "str_float LIGHT_MAX = ''20000.0''"
  by (simp_all add: str_float_def VOLT_MIN_def VOLT_MAX_def TEMP_MIN_def TEMP_MAX_def
        DUST_MIN_def DUST_MAX_def LIGHT_MIN_def LIGHT_MAX_def str_nat_small str_nat_big
        digit_char_def)

lemma bounds_as_floats:
  "VOLT_MIN = Fin (lower_bound Voltage)" "VOLT_MAX = Fin (upper_bound Voltage)"
  "TEMP_MIN = Fin (lower_bound Temperature)" "TEMP_MAX = Fin (upper_bound Temperature)"
  "DUST_MIN = Fin (lower_bound Dust)" "DUST_MAX = Fin (upper_bound Dust)"
  "LIGHT_MIN = Fin (lower_bound Irradiance)" "LIGHT_MAX = Fin (upper_bound Irradiance)"
  by (simp_all add: VOLT_MIN_def VOLT_MAX_def TEMP_MIN_def TEMP_MAX_def
        DUST_MIN_def DUST_MAX_def LIGHT_MIN_def LIGHT_MAX_def)

lemma validate_first_violation:
  "validate_sensor_inputs v t d l =
     map_option (\<lambda>(f, x). violation_message f x) (first_violation v t d l)"
proof -
  have "validate_sensor_inputs v t d l =
     (if \<not> within_bound Voltage v then Some (violation_message Voltage v)
      else if \<not> within_bound Temperature t then Some (violation_message Temperature t)
      else if \<not> within_bound Dust d then Some (violation_message Dust d)
      else if \<not> within_bound Irradiance l then Some (violation_message Irradiance l)
      else None)"
    unfolding validate_sensor_inputs_def str_float_bounds
    unfolding bounds_as_floats in_range_within
    by (simp add: violation_message_def bound_text_def)
  then show ?thesis by (simp add: first_violation_def)
qed

lemma digit_cases:
  "d mod 10 = 0 \<or> d mod 10 = 1 \<or> d mod 10 = 2 \<or> d mod 10 = 3 \<or> d mod 10 = 4 \<or> d mod 10 = 5
     \<or> d mod 10 = 6 \<or> d mod 10 = 7 \<or> d mod 10 = 8 \<or> d mod 10 = (9::nat)"
  by presburger

lemma digit_value_digit_char: "digit_value (digit_char d) = d mod 10"
  using digit_cases [of d] by (auto simp: digit_value_def digit_char_def)

lemma digit_char_is_digit: "digit_char d \<in> set ''0123456789''"
  using digit_cases [of d] by (auto simp: digit_char_def)

lemma read_nat_snoc: "read_nat (s @ [c]) = 10 * read_nat s + digit_value c"
  by (simp add: read_nat_def)

lemma read_nat_str_nat: "read_nat (str_nat n) = n"
proof (induction n rule: str_nat.induct)
  case (1 n)
  show ?case
  proof (cases "n < 10")
    case True
    then show ?thesis
      by (simp add: str_nat_small read_nat_def digit_value_digit_char)
  next
    case False
    with 1 have "read_nat (str_nat (n div 10)) = n div 10" by simp
    with False show ?thesis
      by (simp add: str_nat_big read_nat_snoc digit_value_digit_char)
  qed
qed

lemma is_digits_str_nat: "is_digits (str_nat n)"
proof (induction n rule: str_nat.induct)
  case (1 n)
  show ?case
  proof (cases "n < 10")
    case True
    then show ?thesis
      using digit_char_is_digit [of n] by (simp add: str_nat_small is_digits_def)
  next
    case False
    with 1 have "is_digits (str_nat (n div 10))" by simp
    with False show ?thesis
      using digit_char_is_digit [of "n mod 10"] by (simp add: str_nat_big is_digits_def)
  qed
qed

lemma round_half_even_close: "\<bar>of_int (round_half_even y) - y\<bar> \<le> 1 / 2"
  unfolding round_half_even_def Let_def by (auto; linarith)

lemma round_half_even_nonneg: "0 \<le> y \<Longrightarrow> 0 \<le> round_half_even y"
  unfolding round_half_even_def Let_def by auto

lemma point_not_digit: "CHR ''.'' \<notin> set ''0123456789''"
  by simp

lemma minus_not_digit: "CHR ''-'' \<notin> set ''0123456789''"
  by simp

lemma is_digits_no_point:
  assumes "is_digits s"
  shows "\<forall>c \<in> set s. c \<noteq> CHR ''.''"
proof
  fix c
  assume "c \<in> set s"
  with assms have "c \<in> set ''0123456789''"
    unfolding is_digits_def list_all_iff by blast
  with point_not_digit show "c \<noteq> CHR ''.''" by blast
qed

lemma is_digits_hd:
  assumes "is_digits s"
  shows "s @ r \<noteq> [] \<and> hd (s @ r) \<noteq> CHR ''-''"
proof -
  from assms obtain c cs where s: "s = c # cs"
    unfolding is_digits_def by (cases s) blast+
  with assms have "c \<in> set ''0123456789''"
    unfolding is_digits_def list_all_iff by (metis list.set_intros(1))
  with minus_not_digit have "c \<noteq> CHR ''-''" by blast
  with s show ?thesis by simp
qed

lemma read_decimal_unsigned:
  assumes "is_digits ip" "is_digits fp"
  shows "read_decimal (ip @ ''.'' @ fp) =
     Some (Fin (real (read_nat ip) + real (read_nat fp) / 10 ^ length fp))"
proof -
  from assms(1) have np: "\<forall>c \<in> set ip. c \<noteq> CHR ''.''" by (rule is_digits_no_point)
  from is_digits_hd [OF assms(1), of "''.'' @ fp"]
  have neg: "\<not> (ip @ ''.'' @ fp \<noteq> [] \<and> hd (ip @ ''.'' @ fp) = CHR ''-'')" by simp
  from np have tw: "takeWhile (\<lambda>c. c \<noteq> CHR ''.'') (ip @ ''.'' @ fp) = ip"
    by (simp add: takeWhile_append2)
  from np have dw: "dropWhile (\<lambda>c. c \<noteq> CHR ''.'') (ip @ ''.'' @ fp) = ''.'' @ fp"
    by (simp add: dropWhile_append2)
  show ?thesis
    unfolding read_decimal_def Let_def using neg tw dw assms by simp
qed

lemma read_decimal_signed:
  assumes "is_digits ip" "is_digits fp"
  shows "read_decimal (''-'' @ ip @ ''.'' @ fp) =
     Some (Fin (- (real (read_nat ip) + real (read_nat fp) / 10 ^ length fp)))"
proof -
  from assms(1) have np: "\<forall>c \<in> set ip. c \<noteq> CHR ''.''" by (rule is_digits_no_point)
  from np have tw: "takeWhile (\<lambda>c. c \<noteq> CHR ''.'') (ip @ ''.'' @ fp) = ip"
    by (simp add: takeWhile_append2)
  from np have dw: "dropWhile (\<lambda>c. c \<noteq> CHR ''.'') (ip @ ''.'' @ fp) = ''.'' @ fp"
    by (simp add: dropWhile_append2)
  show ?thesis
    unfolding read_decimal_def Let_def using tw dw assms by simp
qed

lemma two_digits:
  "is_digits [digit_char (q div 10), digit_char q]"
  "read_nat [digit_char (q div 10), digit_char q] = q mod 100"
proof -
  show "is_digits [digit_char (q div 10), digit_char q]"
    using digit_char_is_digit [of "q div 10"] digit_char_is_digit [of q]
    by (simp add: is_digits_def)
  have "read_nat [digit_char (q div 10), digit_char q] = 10 * (q div 10 mod 10) + q mod 10"
    by (simp add: read_nat_def digit_value_digit_char)
  also have "\<dots> = q mod 100" using mod_mult2_eq [of q 10 10] by simp
  finally show "read_nat [digit_char (q div 10), digit_char q] = q mod 100" .
qed

lemma read_decimal_special:
  "read_decimal ''nan'' = Some NaN" "read_decimal ''inf'' = Some PInf"
  "read_decimal ''-inf'' = Some NInf"
  by (simp_all add: read_decimal_def is_digits_def)

lemma read_decimal_format_2f: "read_decimal (format_2f x) = Some (two_decimals x)"
proof (cases x)
  case (Fin r)
  define q where "q = nat (round_half_even (\<bar>r\<bar> * 100))"
  have "0 \<le> round_half_even (\<bar>r\<bar> * 100)" by (rule round_half_even_nonneg) simp
  then have rq: "real q = of_int (round_half_even (\<bar>r\<bar> * 100))" by (simp add: q_def)
  have "real (q div 100 * 100 + q mod 100) = real q" by simp
  then have "real (q div 100) * 100 + real (q mod 100) = real q" by (simp only: of_nat_add of_nat_mult of_nat_numeral)
  then have "real (q div 100) + real (q mod 100) / 100 = real q / 100" by (simp add: field_simps)
  then have val: "real (read_nat (str_nat (q div 100)))
      + real (read_nat [digit_char (q div 10), digit_char q]) / 10 ^ length [digit_char (q div 10), digit_char q]
      = real q / 100"
    by (simp add: read_nat_str_nat two_digits)
  show ?thesis
  proof (cases "r < 0")
    case True
    have "format_2f x = ''-'' @ str_nat (q div 100) @ ''.'' @ [digit_char (q div 10), digit_char q]"
      using True Fin by (simp add: format_2f_def Let_def q_def)
    then show ?thesis
      using read_decimal_signed [OF is_digits_str_nat two_digits(1), of "q div 100" q] val rq
        True Fin
      by simp
  next
    case False
    have "format_2f x = str_nat (q div 100) @ ''.'' @ [digit_char (q div 10), digit_char q]"
      using False Fin by (simp add: format_2f_def Let_def q_def)
    then show ?thesis
      using read_decimal_unsigned [OF is_digits_str_nat two_digits(1), of "q div 100" q] val rq
        False Fin
      by simp
  qed
qed (simp_all add: format_2f_def read_decimal_special)

lemma two_decimals_close:
  assumes "two_decimals (Fin r) = Fin r'"
  shows "\<bar>r' - r\<bar> \<le> 1 / 200"
proof -
  define Q where "Q = real_of_int (round_half_even (\<bar>r\<bar> * 100))"
  have c: "\<bar>Q - \<bar>r\<bar> * 100\<bar> \<le> 1 / 2"
    unfolding Q_def by (rule round_half_even_close)
  have "\<bar>(r' - r) * 100\<bar> = \<bar>Q - \<bar>r\<bar> * 100\<bar>"
  proof (cases "r < 0")
    case True
    with assms have "r' = - (Q / 100)" by (simp add: Q_def)
    with True have "(r' - r) * 100 = - (Q - \<bar>r\<bar> * 100)" by (simp add: algebra_simps)
    then show ?thesis by (simp only: abs_minus_cancel)
  next
    case False
    with assms have "r' = Q / 100" by (simp add: Q_def)
    with False have "(r' - r) * 100 = Q - \<bar>r\<bar> * 100" by (simp add: algebra_simps)
    then show ?thesis by (simp only:)
  qed
  moreover have "\<bar>(r' - r) * 100\<bar> = \<bar>r' - r\<bar> * 100"
    using abs_mult [of "r' - r" 100] by simp
  ultimately have "\<bar>r' - r\<bar> * 100 \<le> 1 / 2" using c by simp
  then have "\<bar>r' - r\<bar> * 100 / 100 \<le> 1 / 2 / 100" by (rule divide_right_mono) simp
  then show ?thesis by simp
qed

lemma digit_literals:
  "is_digits ''0''" "is_digits ''5''" "is_digits ''10''" "is_digits ''20''" "is_digits ''50''"
  "is_digits ''60''" "is_digits ''1000''" "is_digits ''20000''"
  "read_nat ''0'' = 0" "read_nat ''5'' = 5" "read_nat ''10'' = 10" "read_nat ''20'' = 20"
  "read_nat ''50'' = 50" "read_nat ''60'' = 60" "read_nat ''1000'' = 1000"
  "read_nat ''20000'' = 20000"
  by (simp_all add: is_digits_def read_nat_def digit_value_def)

lemma read_decimal_bounds:
  "read_decimal (lower_text f) = Some (Fin (lower_bound f))"
  "read_decimal (upper_text f) = Some (Fin (upper_bound f))"
proof -
  show "read_decimal (lower_text f) = Some (Fin (lower_bound f))"
  proof (cases f)
    case Voltage
    then show ?thesis
      using read_decimal_signed [of "''5''" "''0''"] by (simp add: digit_literals)
  next
    case Temperature
    then show ?thesis
      using read_decimal_signed [of "''50''" "''0''"] by (simp add: digit_literals)
  next
    case Dust
    then show ?thesis
      using read_decimal_unsigned [of "''0''" "''0''"] by (simp add: digit_literals)
  next
    case Irradiance
    then show ?thesis
      using read_decimal_signed [of "''10''" "''0''"] by (simp add: digit_literals)
  qed
  show "read_decimal (upper_text f) = Some (Fin (upper_bound f))"
  proof (cases f)
    case Voltage
    then show ?thesis
      using read_decimal_unsigned [of "''20''" "''0''"] by (simp add: digit_literals)
  next
    case Temperature
    then show ?thesis
      using read_decimal_unsigned [of "''60''" "''0''"] by (simp add: digit_literals)
  next
    case Dust
    then show ?thesis
      using read_decimal_unsigned [of "''1000''" "''0''"] by (simp add: digit_literals)
  next
    case Irradiance
    then show ?thesis
      using read_decimal_unsigned [of "''20000''" "''0''"] by (simp add: digit_literals)
  qed
qed

lemma first_violation_None:
  "first_violation v t d l = None \<longleftrightarrow>
     within_bound Voltage v \<and> within_bound Temperature t \<and> within_bound Dust d
       \<and> within_bound Irradiance l"
  by (simp add: first_violation_def)

lemma violation_message_nonempty: "violation_message f x \<noteq> []"
  by (simp add: violation_message_def)

lemma sublistI: "ys = ps @ xs @ ss \<Longrightarrow> sublist xs ys"
  by (auto simp: sublist_def)

lemma message_names_field: "sublist (field_name f) (violation_message f x)"
  by (rule sublistI [where ps = "''Input Error: ''"]) (simp add: violation_message_def)

lemma message_names_value: "sublist (format_2f x) (violation_message f x)"
  by (rule sublistI [where ps = "''Input Error: '' @ field_name f @ '' (''"])
     (simp add: violation_message_def)

lemma message_names_bound: "sublist (bound_text f) (violation_message f x)"
  by (rule sublistI [where ps = "''Input Error: '' @ field_name f @ '' ('' @ format_2f x
        @ field_unit f @ '') '' @ thai_out_of_range @ '' (''" and ss = "'')''"])
     (simp add: violation_message_def)

lemma label_4: "LABEL_MAP 4 = Some (''Sensor Error / '' @ thai_abnormal)"
  by (simp add: LABEL_MAP_def)

lemma bit_length_le: "n < 2 ^ k \<Longrightarrow> bit_length n \<le> k"
proof (induction k arbitrary: n)
  case 0
  then have "n = 0" by simp
  then show ?case by (simp add: bit_length.simps)
next
  case (Suc k)
  show ?case
  proof (cases "n = 0")
    case True
    then show ?thesis by (simp add: bit_length.simps)
  next
    case False
    from Suc.prems have "n div 2 < 2 ^ k" by simp
    then have "bit_length (n div 2) \<le> k" by (rule Suc.IH)
    with False show ?thesis by (subst bit_length.simps) simp
  qed
qed

lemma int_to_float_small:
  assumes "\<bar>n\<bar> < 2 ^ 53"
  shows "int_to_float n = Inr (Fin (of_int n))"
proof -
  have a: "nat \<bar>n\<bar> < 2 ^ 53" using assms by (simp add: nat_less_iff)
  then have "bit_length (nat \<bar>n\<bar>) \<le> 53" by (rule bit_length_le)
  then have s: "bit_length (nat \<bar>n\<bar>) - 53 = 0" by simp
  have "(2::nat) ^ 53 \<le> 2 ^ 1024" by (rule power_increasing) simp_all
  with a have b: "\<not> (2::nat) ^ 1024 \<le> nat \<bar>n\<bar>" by linarith
  show ?thesis
    unfolding int_to_float_def Let_def s using b by simp
qed

lemma all_in_obj: "all_in (JObj kvs) ks = Inr (set ks \<subseteq> fst ` set kvs)"
  by (induction ks) (auto simp: py_contains_def)

lemma key_present: "map_of kvs k = Some a \<Longrightarrow> k \<in> fst ` set kvs"
  by (metis domI dom_map_of_conv_image_fst)

section \<open>Properties of the handler\<close>

lemma predict_try_obj:
  assumes "map_of kvs ''voltage'' = Some a1" "map_of kvs ''temperature'' = Some a2"
    "map_of kvs ''dust'' = Some a3" "map_of kvs ''irradiance'' = Some a4"
    "py_float F a1 = Inr v" "py_float F a2 = Inr t" "py_float F a3 = Inr d" "py_float F a4 = Inr l"
  shows "predict_try F md sc (JObj kvs) =
     (case first_violation v t d l of
        Some (f, x) \<Rightarrow>
          Inr (Json (JObj [(''result'', JStr (''Sensor Error / '' @ thai_abnormal)),
                           (''error'', JStr (violation_message f x))]), 400)
      | None \<Rightarrow> classify sc md [[v, d, t, l]])"
  using assms
  by (simp add: predict_try_def py_getitem_def validate_first_violation label_4
        violation_message_nonempty input_array_def Let_def split: option.splits)

lemma all_keys_present:
  assumes "map_of kvs ''voltage'' = Some a1" "map_of kvs ''temperature'' = Some a2"
    "map_of kvs ''dust'' = Some a3" "map_of kvs ''irradiance'' = Some a4"
  shows "all_in (JObj kvs) required_keys = Inr True"
proof -
  have "set required_keys \<subseteq> fst ` set kvs"
    using assms by (simp add: required_keys_def key_present)
  then show ?thesis by (simp only: all_in_obj)
qed

lemma predict_loaded_post:
  assumes "model g = Some md" "scaler g = Some sc" "req_method req = POST"
    "get_json req = Inr data" "all_in data required_keys = Inr True"
  shows "predict F g req =
     (case predict_try F md sc data of
        Inr resp \<Rightarrow> (Inr resp, g)
      | Inl e \<Rightarrow>
          if exn_class e = ValueError then
            (Inr (Json (JObj [(''error'',
                     JStr ''Invalid data format. All inputs must be numerical.'')]), 400), g)
          else
            (Inr (Json (JObj [(''error'',
                     JStr (''Internal server error during prediction: '' @ exn_text e))]), 500),
             g\<lparr>stderr := stderr g @ [''Prediction Error (Internal Server): '' @ exn_text e]\<rparr>))"
  using assms by (simp add: predict_def)

lemma predict_fault:
  assumes "model g = Some md" "scaler g = Some sc" "req_method req = POST"
    "get_json req = Inr (JObj kvs)"
    "map_of kvs ''voltage'' = Some a1" "map_of kvs ''temperature'' = Some a2"
    "map_of kvs ''dust'' = Some a3" "map_of kvs ''irradiance'' = Some a4"
    "py_float F a1 = Inr v" "py_float F a2 = Inr t" "py_float F a3 = Inr d" "py_float F a4 = Inr l"
    "first_violation v t d l = Some (f, x)"
  shows "predict F g req =
     (Inr (Json (JObj [(''result'', JStr (''Sensor Error / '' @ thai_abnormal)),
                       (''error'', JStr (violation_message f x))]), 400), g)"
proof -
  have "all_in (JObj kvs) required_keys = Inr True"
    using assms(5-8) by (rule all_keys_present)
  with assms(1-4) have "predict F g req =
     (case predict_try F md sc (JObj kvs) of
        Inr resp \<Rightarrow> (Inr resp, g)
      | Inl e \<Rightarrow>
          if exn_class e = ValueError then
            (Inr (Json (JObj [(''error'',
                     JStr ''Invalid data format. All inputs must be numerical.'')]), 400), g)
          else
            (Inr (Json (JObj [(''error'',
                     JStr (''Internal server error during prediction: '' @ exn_text e))]), 500),
             g\<lparr>stderr := stderr g @ [''Prediction Error (Internal Server): '' @ exn_text e]\<rparr>))"
    by (rule predict_loaded_post)
  also have "predict_try F md sc (JObj kvs) =
      Inr (Json (JObj [(''result'', JStr (''Sensor Error / '' @ thai_abnormal)),
                       (''error'', JStr (violation_message f x))]), 400)"
    using predict_try_obj [OF assms(5-12)] assms(13) by simp
  finally show ?thesis by simp
qed

lemma sample_reading_keys:
  "map_of (reading a b c e) ''voltage'' = Some a"
  "map_of (reading a b c e) ''temperature'' = Some b"
  "map_of (reading a b c e) ''dust'' = Some c"
  "map_of (reading a b c e) ''irradiance'' = Some e"
  by (simp_all add: reading_def)

lemma py_float_small_int: "\<bar>n\<bar> < 2 ^ 53 \<Longrightarrow> py_float F (JInt n) = Inr (Fin (of_int n))"
  by (simp add: py_float_def int_to_float_small)

lemma sample_globals_simps:
  "model loaded_globals = Some sample_model" "scaler loaded_globals = Some sample_scaler"
  "stderr loaded_globals = []"
  "model degraded_globals = None" "scaler degraded_globals = Some sample_scaler"
  "req_method (post data) = POST" "get_json (post data) = Inr data"
  by (simp_all add: loaded_globals_def degraded_globals_def post_def)

lemma sublist_in_appendI:
  assumes "sublist xs ys"
  shows "sublist xs (ps @ ys @ ss)"
proof -
  from assms obtain a b where "ys = a @ xs @ b" by (auto simp: sublist_def)
  then have "ps @ ys @ ss = (ps @ a) @ xs @ (b @ ss)" by simp
  then show ?thesis by (rule sublistI)
qed

lemma sublist_quoted: "sublist k (quoted k)"
  by (rule sublistI [where ps = "[CHR 0x27]" and ss = "[CHR 0x27]"]) (simp add: quoted_def)

lemma key_in_join: "k \<in> set ks \<Longrightarrow> sublist k (join_comma (map quoted ks))"
proof (induction ks)
  case Nil
  then show ?case by simp
next
  case (Cons x xs)
  show ?case
  proof (cases xs)
    case Nil
    with Cons.prems show ?thesis by (simp add: sublist_quoted)
  next
    case (Cons y ys)
    show ?thesis
    proof (cases "k = x")
      case True
      have "sublist k ([] @ quoted k @ ('', '' @ join_comma (map quoted (y # ys))))"
        using sublist_quoted by (rule sublist_in_appendI)
      with True Cons show ?thesis by simp
    next
      case False
      with Cons.prems have "k \<in> set xs" by simp
      then have "sublist k (join_comma (map quoted xs))" by (rule Cons.IH)
      then have "sublist k ((quoted x @ '', '') @ join_comma (map quoted xs) @ [])"
        by (rule sublist_in_appendI)
      with Cons show ?thesis by simp
    qed
  qed
qed

lemma key_in_str_list: "k \<in> set ks \<Longrightarrow> sublist k (pre @ str_list ks)"
proof -
  assume "k \<in> set ks"
  then have "sublist k (join_comma (map quoted ks))" by (rule key_in_join)
  then have "sublist k ((pre @ ''['') @ join_comma (map quoted ks) @ '']'')"
    by (rule sublist_in_appendI)
  then show ?thesis by (simp add: str_list_def)
qed

lemma py_float_JFloat: "py_float F (JFloat x) = Inr x"
  by (simp add: py_float_def)

lemma py_float_nan_str: "py_float sample_str_to_float (JStr ''nan'') = Inr NaN"
  by (simp add: py_float_def sample_str_to_float_def)

lemma predict_try_bad_voltage:
  "py_float F a = Inl e \<Longrightarrow> predict_try F md sc (JObj (reading a b c d)) = Inl e"
  by (simp add: predict_try_def py_getitem_def sample_reading_keys)

lemma reading_all_in: "all_in (JObj (reading a b c d)) required_keys = Inr True"
  by (rule all_keys_present) (rule sample_reading_keys)+

lemma bound_names_ends:
  "sublist (lower_text f) (bound_text f)" "sublist (upper_text f) (bound_text f)"
proof -
  show "sublist (lower_text f) (bound_text f)"
    by (rule sublistI [where ps = "[]"]) (simp add: bound_text_def)
  show "sublist (upper_text f) (bound_text f)"
    by (rule sublistI [where ps = "lower_text f @ field_unit f @ '' '' @ thai_to @ '' ''"
          and ss = "field_unit f"]) (simp add: bound_text_def)
qed

lemma format_2f_75: "format_2f (Fin 75) = ''75.00''"
  by (simp add: format_2f_def round_half_even_def Let_def str_nat_small str_nat_big digit_char_def)

lemma violation_message_75:
  "violation_message Temperature (Fin 75) =
     ''Input Error: Temperature (75.00'' @ degree_C @ '') '' @ thai_out_of_range
       @ '' (-50.0'' @ degree_C @ '' '' @ thai_to @ '' 60.0'' @ degree_C @ '')''"
  by (simp add: violation_message_def bound_text_def format_2f_75)

lemma sample_scaler_row:
  "sample_scaler [[Fin 12, Fin 5, Fin 25, Fin 800]] =
     Inr [[Fin (17 / 25), Fin (1 / 200), Fin (15 / 22), Fin (27 / 667)]]"
  by (simp add: sample_scaler_def)

lemma sample_model_row:
  "sample_model [[Fin (17 / 25), Fin (1 / 200), Fin (15 / 22), Fin (27 / 667)]] =
     Inr [one_hot 0]"
  by (simp add: sample_model_def)

lemma build_response_normal:
  "build_response [one_hot 0] =
     Inr (Json (JObj
       [(''result'', JStr (thai_normal @ '' (Normal)'')),
        (''probabilities'', JObj
          [(thai_normal @ '' (Normal)'', JFloat (Fin 1)),
           (thai_dust @ '' (Soiling)'', JFloat (Fin 0)),
           (thai_high_temp @ '' (High Temp)'', JFloat (Fin 0)),
           (thai_shading @ '' (Shading)'', JFloat (Fin 0)),
           (''Sensor Error / '' @ thai_abnormal, JFloat (Fin 0)),
           (thai_hot @ ''+'' @ thai_shade @ '' (Temp + Shade)'', JFloat (Fin 0)),
           (thai_dust @ ''+'' @ thai_hot @ '' (Dust + Temp)'', JFloat (Fin 0)),
           (thai_dust @ ''+'' @ thai_shade @ '' (Dust + Shade)'', JFloat (Fin 0)),
           (thai_dust @ ''+'' @ thai_hot @ ''+'' @ thai_shade @ '' (Worst Case)'', JFloat (Fin 0)),
           (thai_low_temp @ '' (Low Temp)'', JFloat (Fin 0))])]), 200)"
  by (simp add: build_response_def one_hot_def first_row_def np_argmax_def LABEL_MAP_def)

text \<open>
  C2. For every input, \<open>validate_sensor_inputs\<close> returns \<open>None\<close> exactly when all
  four values lie within their bounds (voltage in [-5, 20], temperature in [-50, 60],
  dust in [0, 1000], irradiance in [-10, 20000]); otherwise it returns the message of
  the first violated bound, the fields being taken in the order voltage, temperature,
  dust, irradiance.
\<close>

theorem validate_sensor_inputs_bounds:
  "(validate_sensor_inputs v t d l = None \<longleftrightarrow>
      within_bound Voltage v \<and> within_bound Temperature t \<and> within_bound Dust d
        \<and> within_bound Irradiance l)
   \<and> validate_sensor_inputs v t d l =
       map_option (\<lambda>(f, x). violation_message f x) (first_violation v t d l)"
  by (simp add: validate_first_violation first_violation_None)

theorem validate_sensor_inputs_bounds_witness:
  "validate_sensor_inputs (Fin 12) (Fin 75) (Fin 5) (Fin 800)
     = Some (violation_message Temperature (Fin 75))
   \<and> validate_sensor_inputs (Fin 12) (Fin 25) (Fin 5) (Fin 800) = None"
  using validate_sensor_inputs_bounds [of "Fin 12" "Fin 75" "Fin 5" "Fin 800"]
        validate_sensor_inputs_bounds [of "Fin 12" "Fin 25" "Fin 5" "Fin 800"]
  by (simp add: first_violation_def)

section \<open>The claims about the handler\<close>

text \<open>
  C1. For every request whose four fields parse as floats and where at least one field
  lies outside its bound, \<open>predict\<close> (model and scaler loaded, method POST) answers
  with status 400, with \<open>result\<close> equal to the label of class index 4, and with the
  message of the first violated bound. The message names the field; it names the value:
  the printed value is part of it and reads back as the value rounded to two digits after
  the point, at most 0.005 away from it (and as the value itself when that is NaN or an
  infinity); and it names the bound: the two printed ends are part of it and read back
  as the two ends of the interval.
\<close>

theorem predict_out_of_range:
  assumes "model g = Some md" "scaler g = Some sc" "req_method req = POST"
    "get_json req = Inr (JObj kvs)"
    "map_of kvs ''voltage'' = Some a1" "map_of kvs ''temperature'' = Some a2"
    "map_of kvs ''dust'' = Some a3" "map_of kvs ''irradiance'' = Some a4"
    "py_float F a1 = Inr v" "py_float F a2 = Inr t" "py_float F a3 = Inr d" "py_float F a4 = Inr l"
    "\<not> (within_bound Voltage v \<and> within_bound Temperature t \<and> within_bound Dust d
         \<and> within_bound Irradiance l)"
  shows "\<exists>f x label.
     first_violation v t d l = Some (f, x) \<and> LABEL_MAP 4 = Some label
     \<and> predict F g req =
         (Inr (Json (JObj [(''result'', JStr label),
                           (''error'', JStr (violation_message f x))]), 400), g)
     \<and> sublist (field_name f) (violation_message f x)
     \<and> sublist (format_2f x) (violation_message f x)
     \<and> read_decimal (format_2f x) = Some (two_decimals x)
     \<and> (\<forall>r. x = Fin r \<longrightarrow> (\<exists>r'. two_decimals x = Fin r' \<and> \<bar>r' - r\<bar> \<le> 1 / 200))
     \<and> ((\<forall>r. x \<noteq> Fin r) \<longrightarrow> two_decimals x = x)
     \<and> sublist (bound_text f) (violation_message f x)
     \<and> sublist (lower_text f) (bound_text f) \<and> sublist (upper_text f) (bound_text f)
     \<and> read_decimal (lower_text f) = Some (Fin (lower_bound f))
     \<and> read_decimal (upper_text f) = Some (Fin (upper_bound f))"
proof -
  from assms(13) have "first_violation v t d l \<noteq> None"
    by (simp add: first_violation_None)
  then obtain f x where fv: "first_violation v t d l = Some (f, x)" by auto
  from assms(1-12) fv have p: "predict F g req =
     (Inr (Json (JObj [(''result'', JStr (''Sensor Error / '' @ thai_abnormal)),
                       (''error'', JStr (violation_message f x))]), 400), g)"
    by (rule predict_fault)
  have close: "\<forall>r. x = Fin r \<longrightarrow> (\<exists>r'. two_decimals x = Fin r' \<and> \<bar>r' - r\<bar> \<le> 1 / 200)"
  proof (intro allI impI)
    fix r
    assume x: "x = Fin r"
    define r' :: real
      where "r' = (if r < 0 then - 1 else 1) * (of_int (round_half_even (\<bar>r\<bar> * 100)) / 100)"
    then have r': "two_decimals (Fin r) = Fin r'" by simp
    then have "\<bar>r' - r\<bar> \<le> 1 / 200" by (rule two_decimals_close)
    with x r' show "\<exists>r'. two_decimals x = Fin r' \<and> \<bar>r' - r\<bar> \<le> 1 / 200" by blast
  qed
  have same: "(\<forall>r. x \<noteq> Fin r) \<longrightarrow> two_decimals x = x"
    by (cases x) simp_all
  from fv label_4 p message_names_field [of f x] message_names_value [of x f]
    read_decimal_format_2f [of x] close same message_names_bound [of f x]
    bound_names_ends [of f] read_decimal_bounds [of f]
  show ?thesis by blast
qed

theorem predict_out_of_range_witness:
  "predict sample_str_to_float loaded_globals
     (post (JObj (reading (JInt 12) (JInt 75) (JInt 5) (JInt 800)))) =
     (Inr (Json (JObj
        [(''result'', JStr (''Sensor Error / '' @ thai_abnormal)),
         (''error'', JStr (''Input Error: Temperature (75.00'' @ degree_C @ '') ''
            @ thai_out_of_range @ '' (-50.0'' @ degree_C @ '' '' @ thai_to @ '' 60.0''
            @ degree_C @ '')''))]), 400),
      loaded_globals)
   \<and> \<not> within_bound Temperature (Fin 75)
   \<and> read_decimal ''75.00'' = Some (Fin 75)
   \<and> read_decimal ''-50.0'' = Some (Fin (- 50)) \<and> read_decimal ''60.0'' = Some (Fin 60)"
proof -
  have fv: "first_violation (Fin 12) (Fin 75) (Fin 5) (Fin 800) = Some (Temperature, Fin 75)"
    by (simp add: first_violation_def)
  have "\<exists>f x label.
     first_violation (Fin 12) (Fin 75) (Fin 5) (Fin 800) = Some (f, x) \<and> LABEL_MAP 4 = Some label
     \<and> predict sample_str_to_float loaded_globals
         (post (JObj (reading (JInt 12) (JInt 75) (JInt 5) (JInt 800)))) =
         (Inr (Json (JObj [(''result'', JStr label),
                           (''error'', JStr (violation_message f x))]), 400), loaded_globals)
     \<and> sublist (field_name f) (violation_message f x)
     \<and> sublist (format_2f x) (violation_message f x)
     \<and> read_decimal (format_2f x) = Some (two_decimals x)
     \<and> (\<forall>r. x = Fin r \<longrightarrow> (\<exists>r'. two_decimals x = Fin r' \<and> \<bar>r' - r\<bar> \<le> 1 / 200))
     \<and> ((\<forall>r. x \<noteq> Fin r) \<longrightarrow> two_decimals x = x)
     \<and> sublist (bound_text f) (violation_message f x)
     \<and> sublist (lower_text f) (bound_text f) \<and> sublist (upper_text f) (bound_text f)
     \<and> read_decimal (lower_text f) = Some (Fin (lower_bound f))
     \<and> read_decimal (upper_text f) = Some (Fin (upper_bound f))"
    by (rule predict_out_of_range [where md = sample_model and sc = sample_scaler
          and kvs = "reading (JInt 12) (JInt 75) (JInt 5) (JInt 800)"
          and ?a1.0 = "JInt 12" and ?a2.0 = "JInt 75" and ?a3.0 = "JInt 5" and ?a4.0 = "JInt 800"])
       (simp_all add: sample_globals_simps sample_reading_keys py_float_small_int)
  then obtain f x label where
    a: "first_violation (Fin 12) (Fin 75) (Fin 5) (Fin 800) = Some (f, x)" and
    b: "LABEL_MAP 4 = Some label" and
    c: "predict sample_str_to_float loaded_globals
         (post (JObj (reading (JInt 12) (JInt 75) (JInt 5) (JInt 800)))) =
         (Inr (Json (JObj [(''result'', JStr label),
                           (''error'', JStr (violation_message f x))]), 400), loaded_globals)" and
    d: "read_decimal (format_2f x) = Some (two_decimals x)" and
    e: "read_decimal (lower_text f) = Some (Fin (lower_bound f))" and
    h: "read_decimal (upper_text f) = Some (Fin (upper_bound f))"
    by blast
  from a fv have fx: "f = Temperature" "x = Fin 75" by simp_all
  from b label_4 have lab: "label = ''Sensor Error / '' @ thai_abnormal" by simp
  have td: "two_decimals (Fin 75) = Fin 75" by (simp add: round_half_even_def Let_def)
  from c fx lab have "predict sample_str_to_float loaded_globals
     (post (JObj (reading (JInt 12) (JInt 75) (JInt 5) (JInt 800)))) =
     (Inr (Json (JObj
        [(''result'', JStr (''Sensor Error / '' @ thai_abnormal)),
         (''error'', JStr (''Input Error: Temperature (75.00'' @ degree_C @ '') ''
            @ thai_out_of_range @ '' (-50.0'' @ degree_C @ '' '' @ thai_to @ '' 60.0''
            @ degree_C @ '')''))]), 400),
      loaded_globals)"
    by (simp only: violation_message_75)
  moreover from d fx td have "read_decimal ''75.00'' = Some (Fin 75)"
    by (simp only: format_2f_75)
  moreover from e fx have "read_decimal ''-50.0'' = Some (Fin (- 50))" by simp
  moreover from h fx have "read_decimal ''60.0'' = Some (Fin 60)" by simp
  moreover have "\<not> within_bound Temperature (Fin 75)" by simp
  ultimately show ?thesis by blast
qed

text \<open>
  C3. For every in-range request that reaches the classifier, the array handed to the
  scaler is the single row voltage, dust, temperature, irradiance, and the classifier is
  handed what the scaler returns for that row: an exception of the scaler on that row, or
  of the classifier on the scaled row, is the exception of the \<^verbatim>\<open>try\<close> body, and the
  response of the handler is built from what the classifier returns for the scaled row.
  In particular the reading voltage 12.0, temperature 25.0, dust 5.0, irradiance 800.0
  gives the row 12.0, 5.0, 25.0, 800.0.
\<close>

theorem predict_feature_order:
  assumes "model g = Some md" "scaler g = Some sc" "req_method req = POST"
    "get_json req = Inr (JObj kvs)"
    "map_of kvs ''voltage'' = Some a1" "map_of kvs ''temperature'' = Some a2"
    "map_of kvs ''dust'' = Some a3" "map_of kvs ''irradiance'' = Some a4"
    "py_float F a1 = Inr v" "py_float F a2 = Inr t" "py_float F a3 = Inr d" "py_float F a4 = Inr l"
    "within_bound Voltage v" "within_bound Temperature t" "within_bound Dust d"
    "within_bound Irradiance l"
  shows "predict_try F md sc (JObj kvs) = classify sc md [[v, d, t, l]]
     \<and> predict_try F md sc (JObj kvs) =
         (case sc [[v, d, t, l]] of
            Inl e \<Rightarrow> Inl e
          | Inr scaled_input \<Rightarrow>
              (case md scaled_input of
                 Inl e \<Rightarrow> Inl e
               | Inr predictions \<Rightarrow> build_response predictions))
     \<and> (\<forall>e. sc [[v, d, t, l]] = Inl e \<longrightarrow> predict_try F md sc (JObj kvs) = Inl e)
     \<and> (\<forall>scaled e. sc [[v, d, t, l]] = Inr scaled \<and> md scaled = Inl e
          \<longrightarrow> predict_try F md sc (JObj kvs) = Inl e)
     \<and> (\<forall>scaled predictions resp.
          sc [[v, d, t, l]] = Inr scaled \<and> md scaled = Inr predictions
            \<and> build_response predictions = Inr resp
          \<longrightarrow> predict F g req = (Inr resp, g))
     \<and> (\<forall>resp. classify sc md [[v, d, t, l]] = Inr resp \<longrightarrow> predict F g req = (Inr resp, g))
     \<and> input_array (Fin 12) (Fin 25) (Fin 5) (Fin 800) = [[Fin 12, Fin 5, Fin 25, Fin 800]]"
proof -
  from assms(13-16) have "first_violation v t d l = None"
    by (simp add: first_violation_None)
  with predict_try_obj [OF assms(5-12)]
  have tr: "predict_try F md sc (JObj kvs) = classify sc md [[v, d, t, l]]" by simp
  have flow: "classify sc md [[v, d, t, l]] =
         (case sc [[v, d, t, l]] of
            Inl e \<Rightarrow> Inl e
          | Inr scaled_input \<Rightarrow>
              (case md scaled_input of
                 Inl e \<Rightarrow> Inl e
               | Inr predictions \<Rightarrow> build_response predictions))"
    by (simp add: classify_def)
  have keys: "all_in (JObj kvs) required_keys = Inr True"
    using assms(5-8) by (rule all_keys_present)
  have resp: "\<forall>resp. classify sc md [[v, d, t, l]] = Inr resp \<longrightarrow> predict F g req = (Inr resp, g)"
    using predict_loaded_post [OF assms(1-4) keys, of F] tr by simp
  have "\<forall>e. sc [[v, d, t, l]] = Inl e \<longrightarrow> predict_try F md sc (JObj kvs) = Inl e"
    using tr flow by simp
  moreover have "\<forall>scaled e. sc [[v, d, t, l]] = Inr scaled \<and> md scaled = Inl e
          \<longrightarrow> predict_try F md sc (JObj kvs) = Inl e"
    using tr flow by simp
  moreover have "\<forall>scaled predictions resp.
          sc [[v, d, t, l]] = Inr scaled \<and> md scaled = Inr predictions
            \<and> build_response predictions = Inr resp
          \<longrightarrow> predict F g req = (Inr resp, g)"
    using resp flow by simp
  moreover have "input_array (Fin 12) (Fin 25) (Fin 5) (Fin 800) = [[Fin 12, Fin 5, Fin 25, Fin 800]]"
    by (simp add: input_array_def)
  ultimately show ?thesis using tr flow resp by simp
qed

theorem predict_feature_order_witness:
  "within_bound Voltage (Fin 12) \<and> within_bound Temperature (Fin 25)
   \<and> within_bound Dust (Fin 5) \<and> within_bound Irradiance (Fin 800)
   \<and> sample_scaler [[Fin 12, Fin 5, Fin 25, Fin 800]] =
       Inr [[Fin (17 / 25), Fin (1 / 200), Fin (15 / 22), Fin (27 / 667)]]
   \<and> sample_model [[Fin (17 / 25), Fin (1 / 200), Fin (15 / 22), Fin (27 / 667)]] =
       Inr [one_hot 0]
   \<and> (\<exists>probabilities.
        predict sample_str_to_float loaded_globals
          (post (JObj (reading (JFloat (Fin 12)) (JFloat (Fin 25)) (JFloat (Fin 5))
             (JFloat (Fin 800))))) =
        (Inr (Json (JObj [(''result'', JStr (thai_normal @ '' (Normal)'')),
                          (''probabilities'', JObj probabilities)]), 200), loaded_globals))"
proof -
  have w: "within_bound Voltage (Fin 12)" "within_bound Temperature (Fin 25)"
    "within_bound Dust (Fin 5)" "within_bound Irradiance (Fin 800)"
    by simp_all
  note pf = predict_feature_order [OF sample_globals_simps(1) sample_globals_simps(2)
      sample_globals_simps(6) sample_globals_simps(7) sample_reading_keys
      py_float_JFloat py_float_JFloat py_float_JFloat py_float_JFloat w,
      where F = sample_str_to_float]
  note flow = pf [THEN conjunct2, THEN conjunct2, THEN conjunct2, THEN conjunct2,
      THEN conjunct1, rule_format]
  from flow [OF conjI [OF sample_scaler_row conjI [OF sample_model_row build_response_normal]]]
  have "\<exists>probabilities.
        predict sample_str_to_float loaded_globals
          (post (JObj (reading (JFloat (Fin 12)) (JFloat (Fin 25)) (JFloat (Fin 5))
             (JFloat (Fin 800))))) =
        (Inr (Json (JObj [(''result'', JStr (thai_normal @ '' (Normal)'')),
                          (''probabilities'', JObj probabilities)]), 200), loaded_globals)"
    by blast
  with w sample_scaler_row sample_model_row show ?thesis by blast
qed

text \<open>
  C4. Whenever the model or the scaler failed to load, every call of the handler answers
  with status 503 and the service-unavailable error, whatever the method and the body of
  the request (also a body that is not JSON), and whatever the loaded artifact would
  compute; the globals are left as they were.
\<close>

theorem predict_unavailable:
  "model g = None \<or> scaler g = None \<Longrightarrow>
     predict F g req =
       (Inr (Json (JObj [(''error'', JStr ''Model or Scaler not loaded. Service unavailable.'')]),
             503), g)"
  by (auto simp: predict_def)

theorem predict_unavailable_witness:
  "model degraded_globals = None
   \<and> predict sample_str_to_float degraded_globals
       \<lparr>req_method = POST, get_json = Inl (Exn BadRequest ''Bad Request'')\<rparr> =
       (Inr (Json (JObj [(''error'', JStr ''Model or Scaler not loaded. Service unavailable.'')]),
             503), degraded_globals)"
  using predict_unavailable [of degraded_globals sample_str_to_float
      "\<lparr>req_method = POST, get_json = Inl (Exn BadRequest ''Bad Request'')\<rparr>"]
  by (simp add: sample_globals_simps)

text \<open>
  C5 as stated, an OPTIONS request is answered with an empty body and status 204 in
  every load state, fails: with the model not loaded the handler answers an OPTIONS
  request with status 503, since the load check of line 96 precedes the method check of
  line 100.
\<close>

theorem predict_options_degraded_counterexample:
  "fst (predict sample_str_to_float degraded_globals \<lparr>req_method = OPTIONS, get_json = Inr JNull\<rparr>)
     = Inr (Json (JObj [(''error'', JStr ''Model or Scaler not loaded. Service unavailable.'')]),
            503)
   \<and> fst (predict sample_str_to_float degraded_globals \<lparr>req_method = OPTIONS, get_json = Inr JNull\<rparr>)
     \<noteq> Inr (Text [], 204)"
  by (simp add: predict_def sample_globals_simps)

text \<open>
  C5, amended. Every OPTIONS request is answered with an empty body and status 204 when
  both the model and the scaler are loaded, and with status 503 and the
  service-unavailable error when either failed to load.
\<close>

theorem predict_options:
  "req_method req = OPTIONS \<Longrightarrow>
     predict F g req =
       (if model g = None \<or> scaler g = None then
          (Inr (Json (JObj [(''error'',
                   JStr ''Model or Scaler not loaded. Service unavailable.'')]), 503), g)
        else (Inr (Text [], 204), g))"
  by (simp add: predict_def)

theorem predict_options_witness:
  "predict sample_str_to_float loaded_globals \<lparr>req_method = OPTIONS, get_json = Inr JNull\<rparr>
     = (Inr (Text [], 204), loaded_globals)"
  using predict_options [of "\<lparr>req_method = OPTIONS, get_json = Inr JNull\<rparr>" sample_str_to_float
      loaded_globals]
  by (simp add: sample_globals_simps)

text \<open>
  C6 as stated, the message returned for an exception other than \<^verbatim>\<open>ValueError\<close> is
  generic and holds no detail of the exception, fails: a list as voltage makes
  \<^verbatim>\<open>float\<close> raise a \<^verbatim>\<open>TypeError\<close>, and the text of that exception is part of the
  error message of the response.
\<close>

theorem predict_internal_error_counterexample:
  "py_float sample_str_to_float (JArr []) =
     Inl (Exn TypeError (''float() argument must be a string or a real number, not ''
            @ quoted ''list''))
   \<and> fst (predict sample_str_to_float loaded_globals
        (post (JObj (reading (JArr []) (JInt 25) (JInt 5) (JInt 800))))) =
     Inr (Json (JObj [(''error'', JStr (''Internal server error during prediction: ''
            @ ''float() argument must be a string or a real number, not '' @ quoted ''list''))]),
          500)"
proof -
  have f: "py_float sample_str_to_float (JArr []) =
     Inl (Exn TypeError (''float() argument must be a string or a real number, not ''
            @ quoted ''list''))"
    by (simp add: py_float_def)
  then have "predict_try sample_str_to_float sample_model sample_scaler
      (JObj (reading (JArr []) (JInt 25) (JInt 5) (JInt 800))) =
     Inl (Exn TypeError (''float() argument must be a string or a real number, not ''
            @ quoted ''list''))"
    by (rule predict_try_bad_voltage)
  with predict_loaded_post [of loaded_globals sample_model sample_scaler
      "post (JObj (reading (JArr []) (JInt 25) (JInt 5) (JInt 800)))"
      "JObj (reading (JArr []) (JInt 25) (JInt 5) (JInt 800))" sample_str_to_float]
    f
  show ?thesis by (simp add: sample_globals_simps reading_all_in)
qed

text \<open>
  C6, amended. For every exception \<open>e\<close> of the \<^verbatim>\<open>try\<close> body other than a
  \<^verbatim>\<open>ValueError\<close>, the handler answers with status 500 and the error message
  "Internal server error during prediction: " followed by the text of \<open>e\<close>, and prints
  one line with the same text to the standard error stream.
\<close>

theorem predict_internal_error:
  assumes "model g = Some md" "scaler g = Some sc" "req_method req = POST"
    "get_json req = Inr data" "all_in data required_keys = Inr True"
    "predict_try F md sc data = Inl e" "exn_class e \<noteq> ValueError"
  shows "predict F g req =
     (Inr (Json (JObj [(''error'',
              JStr (''Internal server error during prediction: '' @ exn_text e))]), 500),
      g\<lparr>stderr := stderr g @ [''Prediction Error (Internal Server): '' @ exn_text e]\<rparr>)"
  using predict_loaded_post [OF assms(1-5), of F] assms(6,7) by simp

theorem predict_internal_error_witness:
  "exn_class (Exn TypeError (''float() argument must be a string or a real number, not ''
       @ quoted ''dict'')) \<noteq> ValueError
   \<and> predict sample_str_to_float loaded_globals
       (post (JObj (reading (JObj []) (JInt 25) (JInt 5) (JInt 800)))) =
     (Inr (Json (JObj [(''error'', JStr (''Internal server error during prediction: ''
            @ ''float() argument must be a string or a real number, not '' @ quoted ''dict''))]),
          500),
      loaded_globals\<lparr>stderr := [''Prediction Error (Internal Server): ''
            @ ''float() argument must be a string or a real number, not '' @ quoted ''dict'']\<rparr>)"
proof -
  have "predict_try sample_str_to_float sample_model sample_scaler
      (JObj (reading (JObj []) (JInt 25) (JInt 5) (JInt 800))) =
     Inl (Exn TypeError (''float() argument must be a string or a real number, not ''
            @ quoted ''dict''))"
    by (rule predict_try_bad_voltage) (simp add: py_float_def)
  from predict_internal_error [OF _ _ _ _ reading_all_in this, of loaded_globals
      "post (JObj (reading (JObj []) (JInt 25) (JInt 5) (JInt 800)))"]
  show ?thesis by (simp add: sample_globals_simps)
qed

text \<open>
  C7. The claim, that every value that cannot be converted to a float is answered with
  status 400 and "Invalid data format. All inputs must be numerical.", is not met by the
  code for \<^verbatim>\<open>null\<close>: \<^verbatim>\<open>float(None)\<close> raises \<^verbatim>\<open>TypeError\<close>, which the clause of line
  155 does not catch, so the handler answers with status 500.
\<close>

theorem predict_null_field:
  "predict sample_str_to_float loaded_globals
     (post (JObj (reading JNull (JInt 25) (JInt 5) (JInt 800)))) =
     (Inr (Json (JObj [(''error'', JStr (''Internal server error during prediction: ''
            @ ''float() argument must be a string or a real number, not ''
            @ quoted ''NoneType''))]), 500),
      loaded_globals\<lparr>stderr := [''Prediction Error (Internal Server): ''
            @ ''float() argument must be a string or a real number, not ''
            @ quoted ''NoneType'']\<rparr>)"
proof -
  have "predict_try sample_str_to_float sample_model sample_scaler
      (JObj (reading JNull (JInt 25) (JInt 5) (JInt 800))) =
     Inl (Exn TypeError (''float() argument must be a string or a real number, not ''
            @ quoted ''NoneType''))"
    by (rule predict_try_bad_voltage) (simp add: py_float_def)
  with predict_loaded_post [of loaded_globals sample_model sample_scaler
      "post (JObj (reading JNull (JInt 25) (JInt 5) (JInt 800)))"
      "JObj (reading JNull (JInt 25) (JInt 5) (JInt 800))" sample_str_to_float]
  show ?thesis by (simp add: sample_globals_simps reading_all_in)
qed

text \<open>
  C8. For every POST body that is a JSON object missing at least one of the four keys,
  with model and scaler loaded, the handler answers with status 400 and an error message
  that lists all four required keys.
\<close>

theorem predict_missing_key:
  assumes "model g = Some md" "scaler g = Some sc" "req_method req = POST"
    "get_json req = Inr (JObj kvs)" "\<exists>k \<in> set required_keys. k \<notin> fst ` set kvs"
  shows "predict F g req =
     (Inr (Json (JObj [(''error'',
              JStr (''Missing one or more required keys: '' @ str_list required_keys))]), 400), g)
     \<and> (\<forall>k \<in> set required_keys.
          sublist k (''Missing one or more required keys: '' @ str_list required_keys))
     \<and> set required_keys = {''voltage'', ''temperature'', ''dust'', ''irradiance''}"
proof -
  from assms(5) have "all_in (JObj kvs) required_keys = Inr False"
    by (simp only: all_in_obj) auto
  with assms(1-4) have "predict F g req =
     (Inr (Json (JObj [(''error'',
              JStr (''Missing one or more required keys: '' @ str_list required_keys))]), 400), g)"
    by (simp add: predict_def)
  moreover have "\<forall>k \<in> set required_keys.
      sublist k (''Missing one or more required keys: '' @ str_list required_keys)"
    using key_in_str_list by blast
  moreover have "set required_keys = {''voltage'', ''temperature'', ''dust'', ''irradiance''}"
    by (simp add: required_keys_def)
  ultimately show ?thesis by blast
qed

theorem predict_missing_key_witness:
  "(\<exists>k \<in> set required_keys. k \<notin> fst ` set [(''voltage'', JInt 12), (''dust'', JInt 5)])
   \<and> predict sample_str_to_float loaded_globals
       (post (JObj [(''voltage'', JInt 12), (''dust'', JInt 5)])) =
     (Inr (Json (JObj [(''error'',
              JStr (''Missing one or more required keys: '' @ str_list required_keys))]), 400),
      loaded_globals)
   \<and> str_list required_keys =
       ''['' @ quoted ''voltage'' @ '', '' @ quoted ''temperature'' @ '', '' @ quoted ''dust''
         @ '', '' @ quoted ''irradiance'' @ '']''"
proof -
  have h: "\<exists>k \<in> set required_keys. k \<notin> fst ` set [(''voltage'', JInt 12), (''dust'', JInt 5)]"
    by (simp add: required_keys_def)
  from predict_missing_key [OF _ _ _ _ h, of loaded_globals sample_model sample_scaler
      "post (JObj [(''voltage'', JInt 12), (''dust'', JInt 5)])" sample_str_to_float]
  have "predict sample_str_to_float loaded_globals
       (post (JObj [(''voltage'', JInt 12), (''dust'', JInt 5)])) =
     (Inr (Json (JObj [(''error'',
              JStr (''Missing one or more required keys: '' @ str_list required_keys))]), 400),
      loaded_globals)"
    by (simp add: sample_globals_simps)
  moreover have "str_list required_keys =
       ''['' @ quoted ''voltage'' @ '', '' @ quoted ''temperature'' @ '', '' @ quoted ''dust''
         @ '', '' @ quoted ''irradiance'' @ '']''"
    by (simp add: str_list_def required_keys_def)
  ultimately show ?thesis using h by blast
qed

text \<open>
  C9. With the model and the scaler fixed, the response of the handler is a function of
  the request alone: no call changes the model or the scaler held in the globals, and two
  calls on the same request, from globals that agree on model and scaler (whatever was
  printed to the standard error stream in between), give the same response.
\<close>

theorem predict_pure:
  "model (snd (predict F g req)) = model g
   \<and> scaler (snd (predict F g req)) = scaler g
   \<and> (model g' = model g \<and> scaler g' = scaler g \<and> req_method req' = req_method req
        \<and> get_json req' = get_json req
      \<longrightarrow> fst (predict F g' req') = fst (predict F g req))"
  by (simp add: predict_def split: sum.splits)

theorem predict_pure_witness:
  "model (loaded_globals\<lparr>stderr := [''earlier line'']\<rparr>) = model loaded_globals
   \<and> scaler (loaded_globals\<lparr>stderr := [''earlier line'']\<rparr>) = scaler loaded_globals
   \<and> fst (predict sample_str_to_float (loaded_globals\<lparr>stderr := [''earlier line'']\<rparr>)
        (post (JObj (reading JNull (JInt 25) (JInt 5) (JInt 800)))))
     = fst (predict sample_str_to_float loaded_globals
        (post (JObj (reading JNull (JInt 25) (JInt 5) (JInt 800)))))
   \<and> model (snd (predict sample_str_to_float loaded_globals
        (post (JObj (reading JNull (JInt 25) (JInt 5) (JInt 800)))))) = Some sample_model"
  using predict_pure [of sample_str_to_float loaded_globals
      "post (JObj (reading JNull (JInt 25) (JInt 5) (JInt 800)))"
      "loaded_globals\<lparr>stderr := [''earlier line'']\<rparr>"
      "post (JObj (reading JNull (JInt 25) (JInt 5) (JInt 800)))"]
  by (simp add: sample_globals_simps)

text \<open>
  C10. When any of the four values is NaN, \<open>validate_sensor_inputs\<close> returns the
  message of the first field, in the order voltage, temperature, dust, irradiance, whose
  value is NaN or otherwise outside its bound, and the handler answers with status 400
  and that message whatever the scaler and the classifier are: the NaN reaches neither.
\<close>

theorem predict_nan:
  assumes "model g = Some md" "scaler g = Some sc" "req_method req = POST"
    "get_json req = Inr (JObj kvs)"
    "map_of kvs ''voltage'' = Some a1" "map_of kvs ''temperature'' = Some a2"
    "map_of kvs ''dust'' = Some a3" "map_of kvs ''irradiance'' = Some a4"
    "py_float F a1 = Inr v" "py_float F a2 = Inr t" "py_float F a3 = Inr d" "py_float F a4 = Inr l"
    "v = NaN \<or> t = NaN \<or> d = NaN \<or> l = NaN"
  shows "\<exists>f x.
     first_violation v t d l = Some (f, x)
     \<and> validate_sensor_inputs v t d l = Some (violation_message f x)
     \<and> (\<forall>md' sc'.
          fst (predict F (g\<lparr>model := Some md', scaler := Some sc'\<rparr>) req) =
            Inr (Json (JObj [(''result'', JStr (''Sensor Error / '' @ thai_abnormal)),
                             (''error'', JStr (violation_message f x))]), 400))"
proof -
  from assms(13) have "\<not> (within_bound Voltage v \<and> within_bound Temperature t
      \<and> within_bound Dust d \<and> within_bound Irradiance l)"
    by auto
  then have "first_violation v t d l \<noteq> None" by (simp add: first_violation_None)
  then obtain f x where fv: "first_violation v t d l = Some (f, x)" by auto
  then have val: "validate_sensor_inputs v t d l = Some (violation_message f x)"
    by (simp add: validate_first_violation)
  have "fst (predict F (g\<lparr>model := Some md', scaler := Some sc'\<rparr>) req) =
            Inr (Json (JObj [(''result'', JStr (''Sensor Error / '' @ thai_abnormal)),
                             (''error'', JStr (violation_message f x))]), 400)" for md' sc'
    using predict_fault [of "g\<lparr>model := Some md', scaler := Some sc'\<rparr>" md' sc' req kvs
        a1 a2 a3 a4 F v t d l f x] assms(3-12) fv
    by simp
  with fv val show ?thesis by blast
qed

theorem predict_nan_witness:
  "first_violation (Fin 12) (Fin 25) NaN (Fin 800) = Some (Dust, NaN)
   \<and> validate_sensor_inputs (Fin 12) (Fin 25) NaN (Fin 800) = Some (violation_message Dust NaN)
   \<and> fst (predict sample_str_to_float loaded_globals
        (post (JObj (reading (JInt 12) (JInt 25) (JStr ''nan'') (JInt 800))))) =
      Inr (Json (JObj [(''result'', JStr (''Sensor Error / '' @ thai_abnormal)),
                       (''error'', JStr (violation_message Dust NaN))]), 400)"
proof -
  have fv: "first_violation (Fin 12) (Fin 25) NaN (Fin 800) = Some (Dust, NaN)"
    by (simp add: first_violation_def)
  have "\<exists>f x.
     first_violation (Fin 12) (Fin 25) NaN (Fin 800) = Some (f, x)
     \<and> validate_sensor_inputs (Fin 12) (Fin 25) NaN (Fin 800) = Some (violation_message f x)
     \<and> (\<forall>md' sc'.
          fst (predict sample_str_to_float
                 (loaded_globals\<lparr>model := Some md', scaler := Some sc'\<rparr>)
                 (post (JObj (reading (JInt 12) (JInt 25) (JStr ''nan'') (JInt 800))))) =
            Inr (Json (JObj [(''result'', JStr (''Sensor Error / '' @ thai_abnormal)),
                             (''error'', JStr (violation_message f x))]), 400))"
    by (rule predict_nan [where md = sample_model and sc = sample_scaler
          and kvs = "reading (JInt 12) (JInt 25) (JStr ''nan'') (JInt 800)"
          and ?a1.0 = "JInt 12" and ?a2.0 = "JInt 25" and ?a3.0 = "JStr ''nan''"
          and ?a4.0 = "JInt 800"])
       (simp_all add: sample_globals_simps sample_reading_keys py_float_small_int
          py_float_nan_str)
  then obtain f x where
    a: "first_violation (Fin 12) (Fin 25) NaN (Fin 800) = Some (f, x)" and
    b: "validate_sensor_inputs (Fin 12) (Fin 25) NaN (Fin 800) = Some (violation_message f x)" and
    c: "\<And>md' sc'.
          fst (predict sample_str_to_float
                 (loaded_globals\<lparr>model := Some md', scaler := Some sc'\<rparr>)
                 (post (JObj (reading (JInt 12) (JInt 25) (JStr ''nan'') (JInt 800))))) =
            Inr (Json (JObj [(''result'', JStr (''Sensor Error / '' @ thai_abnormal)),
                             (''error'', JStr (violation_message f x))]), 400)"
    by blast
  from a fv have fx: "f = Dust" "x = NaN" by simp_all
  have "loaded_globals\<lparr>model := Some sample_model, scaler := Some sample_scaler\<rparr> = loaded_globals"
    by (simp add: loaded_globals_def)
  with c [where md' = sample_model and sc' = sample_scaler] fx fv b show ?thesis by simp
qed

end
